theory Spec2Isabelle
  imports Complex_Main "HOL-Library.Signed_Division"
begin

section \<open>Focus Wizard bridge: metrics collector and focus analyzer\<close>

text \<open>
  A shallow embedding of \<^verbatim>\<open>bridge/src/metrics_collector.cpp\<close> and
  \<^verbatim>\<open>bridge/src/focus_analyzer.cpp\<close>.

  Conventions of the embedding:
  \<^item> the value of a C++ \<^verbatim>\<open>float\<close> is a \<open>real\<close>. Every arithmetic operation and every
    conversion of the source that can round is wrapped in a rounding function \<open>rnd\<close>,
    the first argument of the functions that compute. The code is the instance
    \<open>rnd = fl32\<close>, the rounding to the nearest binary32 value defined below; the
    instance \<open>rnd = exact\<close> is arithmetic without rounding. Literals that binary32 holds
    exactly (0, 0.5, 0.25, 1, 2, 12, 1000) are written as they are, the others
    (0.1, 0.15, 0.3, 0.6) as \<open>rnd\<close> of the decimal. The sum of the two squares in the gaze
    magnitude is not fused. Infinities and NaN are outside the model;
  \<^item> a \<^verbatim>\<open>steady_clock::time_point\<close> is an \<open>int\<close>, the number of clock ticks since
    the clock's epoch. The length of a tick is fixed by the platform's standard library,
    so every function that reads a duration takes \<open>tpm\<close>, the number of ticks per
    millisecond, as an argument (1000000 where the clock counts nanoseconds);
  \<^item> every call of \<^verbatim>\<open>steady_clock::now()\<close> is an argument \<open>now\<close>;
  \<^item> member and static variables are fields of a record that is passed in and
    returned updated;
  \<^item> the JSON text that the functions return only prints fields of these records;
    the model returns the values themselves.
\<close>

subsection \<open>Rounding to binary32\<close>

text \<open>Rounding a real to the nearest integer, ties to the even one.\<close>

definition rne :: "real \<Rightarrow> int" where
  "rne t =
     (let f = \<lfloor>t\<rfloor>; d = t - of_int f
      in if d < 1 / 2 then f else if 1 / 2 < d then f + 1 else if even f then f else f + 1)"

text \<open>
  The exponent of the unit in the last place of a magnitude \<open>ax\<close>: the least \<open>e\<close> from
  \<open>e0\<close> on with \<open>ax < 2 powi (e + 24)\<close>, and at most 104. Started at -149 it gives the
  24-bit significand of binary32 with gradual underflow: magnitudes below \<open>2 powi (- 125)\<close>
  (the subnormal numbers and the first binade) have the unit \<open>2 powi (- 149)\<close>, and the
  largest binade has the unit \<open>2 powi 104\<close>.
\<close>

function ulp_exponent :: "int \<Rightarrow> real \<Rightarrow> int" where
  "ulp_exponent e ax = (if 104 \<le> e \<or> ax < 2 powi (e + 24) then e else ulp_exponent (e + 1) ax)"
  by pat_completeness auto
termination
  by (relation "measure (\<lambda>(e, ax). nat (104 - e))") auto

declare ulp_exponent.simps [simp del]

text \<open>
  Rounding to nearest, ties to even, onto the binary32 grid. A magnitude beyond the
  binary32 range is rounded on the grid of the largest binade instead of becoming an
  infinity.
\<close>

definition fl32 :: "real \<Rightarrow> real" where
  "fl32 v = (let e = ulp_exponent (- 149) \<bar>v\<bar> in of_int (rne (v / 2 powi e)) * 2 powi e)"

text \<open>Arithmetic without rounding.\<close>

definition exact :: "real \<Rightarrow> real" where
  "exact v = v"

subsection \<open>Data model\<close>

text \<open>\<^verbatim>\<open>struct FocusMetrics\<close> (metrics_collector.hpp).\<close>

record FocusMetrics =
  pulse_rate_bpm :: real
  pulse_confidence :: real
  has_pulse :: bool
  breathing_rate_bpm :: real
  breathing_confidence :: real
  has_breathing :: bool
  face_detected :: bool
  is_blinking :: bool
  is_talking :: bool
  blink_rate_per_min :: real
  gaze_x :: real
  gaze_y :: real
  has_gaze :: bool
  timestamp_us :: int

text \<open>The default member initialisers of \<^verbatim>\<open>FocusMetrics\<close>.\<close>

definition FocusMetrics_default :: FocusMetrics where
  "FocusMetrics_default =
     \<lparr>pulse_rate_bpm = 0, pulse_confidence = 0, has_pulse = False,
      breathing_rate_bpm = 0, breathing_confidence = 0, has_breathing = False,
      face_detected = False, is_blinking = False, is_talking = False,
      blink_rate_per_min = 0, gaze_x = 0, gaze_y = 0, has_gaze = False,
      timestamp_us = 0\<rparr>"

text \<open>\<^verbatim>\<open>enum class FocusState\<close> and \<^verbatim>\<open>struct FocusThresholds\<close> (focus_analyzer.hpp).\<close>

datatype FocusState = FOCUSED | DISTRACTED | DROWSY | STRESSED | AWAY | TALKING | UNKNOWN

record FocusThresholds =
  blink_rate_drowsy_threshold :: real
  pulse_stressed_threshold :: real
  breathing_stressed_threshold :: real
  gaze_distraction_threshold :: real
  face_absence_timeout_s :: real

text \<open>
  The default member initialisers: \<^verbatim>\<open>25.0f\<close>, \<^verbatim>\<open>100.0f\<close>, \<^verbatim>\<open>22.0f\<close>, \<^verbatim>\<open>0.3f\<close> and
  \<^verbatim>\<open>3.0f\<close>. The literal \<^verbatim>\<open>0.3f\<close> is the binary32 value nearest to 0.3.
\<close>

definition FocusThresholds_default :: FocusThresholds where
  "FocusThresholds_default =
     \<lparr>blink_rate_drowsy_threshold = 25, pulse_stressed_threshold = 100,
      breathing_stressed_threshold = 22, gaze_distraction_threshold = fl32 (3 / 10),
      face_absence_timeout_s = 3\<rparr>"

text \<open>The private members of \<^verbatim>\<open>class FocusAnalyzer\<close>.\<close>

record FocusAnalyzer =
  thresholds :: FocusThresholds
  current_state :: FocusState
  last_face_seen :: int
  ever_seen_face :: bool

text \<open>The constructor: \<open>now\<close> is the clock reading at construction.\<close>

definition FocusAnalyzer_new :: "FocusThresholds \<Rightarrow> int \<Rightarrow> FocusAnalyzer" where
  "FocusAnalyzer_new th now =
     \<lparr>thresholds = th, current_state = UNKNOWN, last_face_seen = now, ever_seen_face = False\<rparr>"

subsection \<open>FocusAnalyzer::analyze\<close>

text \<open>
  The local variables \<^verbatim>\<open>state\<close> and \<^verbatim>\<open>focus_score\<close> are a pair that each block
  of the function takes and returns. The blocks follow the source in order.
\<close>

type_synonym verdict = "FocusState \<times> real"

text \<open>Track face presence.\<close>

definition track_face :: "FocusAnalyzer \<Rightarrow> FocusMetrics \<Rightarrow> int \<Rightarrow> FocusAnalyzer" where
  "track_face a m now =
     (if face_detected m then a\<lparr>last_face_seen := now, ever_seen_face := True\<rparr> else a)"

text \<open>
  \<^verbatim>\<open>duration_cast<milliseconds>(now - last_face_seen_).count() / 1000.0f\<close>: the cast
  truncates towards zero to whole milliseconds; the 64-bit count is converted to
  \<^verbatim>\<open>float\<close> and divided by \<^verbatim>\<open>1000.0f\<close>, and both steps round.
\<close>

definition absence_duration :: "(real \<Rightarrow> real) \<Rightarrow> int \<Rightarrow> FocusAnalyzer \<Rightarrow> int \<Rightarrow> real" where
  "absence_duration rnd tpm a now =
     rnd (rnd (real_of_int ((now - last_face_seen a) sdiv tpm)) / 1000)"

text \<open>1. Check if face is gone (AWAY).\<close>

definition check_away ::
  "(real \<Rightarrow> real) \<Rightarrow> int \<Rightarrow> FocusAnalyzer \<Rightarrow> FocusMetrics \<Rightarrow> int \<Rightarrow> verdict \<Rightarrow> verdict" where
  "check_away rnd tpm a m now v =
     (if ever_seen_face a then
        (if \<not> face_detected m \<and>
            absence_duration rnd tpm a now > face_absence_timeout_s (thresholds a)
         then (AWAY, 0) else v)
      else v)"

text \<open>2. Check talking.\<close>

definition check_talking :: "(real \<Rightarrow> real) \<Rightarrow> FocusMetrics \<Rightarrow> verdict \<Rightarrow> verdict" where
  "check_talking rnd m v = (if is_talking m then (TALKING, rnd (3 / 10)) else v)"

text \<open>
  3. Check distraction (gaze looking away from screen). The magnitude is
  \<^verbatim>\<open>std::sqrt(gaze_x * gaze_x + gaze_y * gaze_y)\<close> on \<^verbatim>\<open>float\<close>: two products, their sum
  and the square root, each rounded.
\<close>

definition gaze_mag :: "(real \<Rightarrow> real) \<Rightarrow> FocusMetrics \<Rightarrow> real" where
  "gaze_mag rnd m = rnd (sqrt (rnd (rnd (gaze_x m * gaze_x m) + rnd (gaze_y m * gaze_y m))))"

definition check_distracted ::
  "(real \<Rightarrow> real) \<Rightarrow> FocusThresholds \<Rightarrow> FocusMetrics \<Rightarrow> verdict \<Rightarrow> verdict" where
  "check_distracted rnd th m v =
     (if fst v = UNKNOWN \<and> has_gaze m then
        (if gaze_mag rnd m > gaze_distraction_threshold th
         then (DISTRACTED,
               max (rnd (1 / 10)) (rnd (rnd (6 / 10) - rnd (gaze_mag rnd m * rnd (3 / 10)))))
         else v)
      else v)"

text \<open>4. Check drowsy indicators. \<open>drowsy_condition\<close> is the condition of the inner \<^verbatim>\<open>if\<close>.\<close>

definition drowsy_condition :: "FocusThresholds \<Rightarrow> FocusMetrics \<Rightarrow> bool" where
  "drowsy_condition th m =
     (let high_blink_rate = blink_rate_per_min m > blink_rate_drowsy_threshold th;
          slow_breathing = has_breathing m \<and> breathing_rate_bpm m < 12
      in high_blink_rate \<or> (high_blink_rate \<and> slow_breathing))"

definition check_drowsy ::
  "(real \<Rightarrow> real) \<Rightarrow> FocusThresholds \<Rightarrow> FocusMetrics \<Rightarrow> verdict \<Rightarrow> verdict" where
  "check_drowsy rnd th m v =
     (if fst v = UNKNOWN then
        (if drowsy_condition th m then (DROWSY, rnd (15 / 100)) else v)
      else v)"

text \<open>5. Check stress indicators.\<close>

definition stressed_condition :: "FocusThresholds \<Rightarrow> FocusMetrics \<Rightarrow> bool" where
  "stressed_condition th m =
     (let elevated_pulse = has_pulse m \<and> pulse_rate_bpm m > pulse_stressed_threshold th;
          fast_breathing = has_breathing m \<and> breathing_rate_bpm m > breathing_stressed_threshold th
      in elevated_pulse \<and> fast_breathing)"

definition check_stressed :: "FocusThresholds \<Rightarrow> FocusMetrics \<Rightarrow> verdict \<Rightarrow> verdict" where
  "check_stressed th m v =
     (if fst v = UNKNOWN then
        (if stressed_condition th m then (STRESSED, 25 / 100) else v)
      else v)"

text \<open>6. If nothing triggered, user is focused.\<close>

definition vitals_score :: "(real \<Rightarrow> real) \<Rightarrow> FocusThresholds \<Rightarrow> FocusMetrics \<Rightarrow> real" where
  "vitals_score rnd th m =
     (if has_pulse m \<and> pulse_rate_bpm m > 0
      then min 1 (rnd (pulse_stressed_threshold th / pulse_rate_bpm m)) else 1)"

definition check_focused ::
  "(real \<Rightarrow> real) \<Rightarrow> FocusAnalyzer \<Rightarrow> FocusMetrics \<Rightarrow> verdict \<Rightarrow> verdict" where
  "check_focused rnd a m v =
     (if fst v = UNKNOWN \<and> ever_seen_face a
      then (FOCUSED, vitals_score rnd (thresholds a) m) else v)"

text \<open>The final block: if we still don't know, the score is neutral.\<close>

definition still_unknown :: "verdict \<Rightarrow> verdict" where
  "still_unknown v = (if fst v = UNKNOWN then (fst v, 1 / 2) else v)"

text \<open>
  The whole function. It returns the state and the score that \<^verbatim>\<open>build_json\<close> prints,
  and the analyzer with its members updated.
\<close>

definition analyze ::
  "(real \<Rightarrow> real) \<Rightarrow> int \<Rightarrow> FocusAnalyzer \<Rightarrow> FocusMetrics \<Rightarrow> int \<Rightarrow> verdict \<times> FocusAnalyzer" where
  "analyze rnd tpm a m now =
     (let a1 = track_face a m now;
          v0 = (UNKNOWN, 1 / 2);
          v1 = check_away rnd tpm a1 m now v0;
          can_analyze = face_detected m;
          v6 = (if fst v1 = UNKNOWN \<and> can_analyze then
                  check_focused rnd a1 m
                    (check_stressed (thresholds a1) m
                      (check_drowsy rnd (thresholds a1) m
                        (check_distracted rnd (thresholds a1) m
                          (check_talking rnd m v1))))
                else v1);
          v7 = still_unknown v6
      in (v7, a1\<lparr>current_state := fst v7\<rparr>))"

text \<open>Successive calls of \<open>analyze\<close> on one analyzer, each with its snapshot and clock reading.\<close>

fun analyze_all ::
  "(real \<Rightarrow> real) \<Rightarrow> int \<Rightarrow> FocusAnalyzer \<Rightarrow> (FocusMetrics \<times> int) list \<Rightarrow> FocusAnalyzer" where
  "analyze_all rnd tpm a [] = a"
| "analyze_all rnd tpm a ((m, now) # calls) =
     analyze_all rnd tpm (snd (analyze rnd tpm a m now)) calls"

subsection \<open>Blink-rate estimator (metrics_collector.cpp)\<close>

text \<open>
  The static variables \<^verbatim>\<open>blink_timestamps\<close> (a deque, front first) and
  \<^verbatim>\<open>prev_blink_state\<close>.
\<close>

record BlinkEstimator =
  blink_timestamps :: "int list"
  prev_blink_state :: bool

definition BlinkEstimator_init :: BlinkEstimator where
  "BlinkEstimator_init = \<lparr>blink_timestamps = [], prev_blink_state = False\<rparr>"

text \<open>
  The eviction loop
  \<^verbatim>\<open>while (!blink_timestamps.empty() && blink_timestamps.front() < cutoff) pop_front()\<close>.
\<close>

fun evict :: "int \<Rightarrow> int list \<Rightarrow> int list" where
  "evict cutoff [] = []"
| "evict cutoff (t # ts) = (if t < cutoff then evict cutoff ts else t # ts)"

text \<open>
  \<^verbatim>\<open>estimate_blink_rate\<close>: the returned rate and the updated static variables.
  \<^verbatim>\<open>std::chrono::seconds(60)\<close> is \<open>60000 * tpm\<close> ticks. The returned
  \<^verbatim>\<open>static_cast<float>(size)\<close> is the size itself: binary32 holds every size up to
  16777216 exactly.
\<close>

definition estimate_blink_rate :: "int \<Rightarrow> BlinkEstimator \<Rightarrow> bool \<Rightarrow> int \<Rightarrow> real \<times> BlinkEstimator" where
  "estimate_blink_rate tpm e currently_blinking now =
     (let pushed = (if currently_blinking \<and> \<not> prev_blink_state e
                    then blink_timestamps e @ [now] else blink_timestamps e);
          cutoff = now - 60000 * tpm;
          kept = evict cutoff pushed
      in (real (length kept), \<lparr>blink_timestamps = kept, prev_blink_state = currently_blinking\<rparr>))"

text \<open>Successive calls of the estimator, each with its blink flag and clock reading.\<close>

fun estimate_all :: "int \<Rightarrow> BlinkEstimator \<Rightarrow> (bool \<times> int) list \<Rightarrow> BlinkEstimator" where
  "estimate_all tpm e [] = e"
| "estimate_all tpm e ((b, now) # calls) =
     estimate_all tpm (snd (estimate_blink_rate tpm e b now)) calls"

subsection \<open>MetricsCollector::process_edge_metrics\<close>

text \<open>
  The protobuf messages of the sensing SDK, as far as the function reads them: a landmark
  point with \<^verbatim>\<open>x()\<close> and \<^verbatim>\<open>y()\<close>; a landmark set, the repeated field \<^verbatim>\<open>value\<close>; a
  face with the repeated fields \<^verbatim>\<open>blinking\<close> and \<^verbatim>\<open>talking\<close> (of each entry only
  \<^verbatim>\<open>detected()\<close>) and \<^verbatim>\<open>landmarks\<close>; the frame message with its optional face
  (\<^verbatim>\<open>has_face()\<close>). \<^verbatim>\<open>*xs.rbegin()\<close> is \<open>last xs\<close>, read only where \<open>xs\<close> is not empty.
\<close>

record Landmark =
  point_x :: real
  point_y :: real

record Face =
  blinking :: "bool list"
  talking :: "bool list"
  landmarks :: "Landmark list list"

record Metrics =
  face :: "Face option"

text \<open>The collector's member \<^verbatim>\<open>current_metrics_\<close> together with the estimator's static variables.\<close>

record MetricsCollector =
  current_metrics :: FocusMetrics
  estimator :: BlinkEstimator

definition MetricsCollector_new :: MetricsCollector where
  "MetricsCollector_new = \<lparr>current_metrics = FocusMetrics_default, estimator = BlinkEstimator_init\<rparr>"

text \<open>Blink detection.\<close>

definition update_blink :: "int \<Rightarrow> Face \<Rightarrow> int \<Rightarrow> MetricsCollector \<Rightarrow> MetricsCollector" where
  "update_blink tpm f now c =
     (if blinking f \<noteq> [] then
        (let b = last (blinking f);
             r = estimate_blink_rate tpm (estimator c) b now
         in c\<lparr>current_metrics := (current_metrics c)\<lparr>is_blinking := b, blink_rate_per_min := fst r\<rparr>,
              estimator := snd r\<rparr>)
      else c)"

text \<open>Talking detection.\<close>

definition update_talking :: "Face \<Rightarrow> FocusMetrics \<Rightarrow> FocusMetrics" where
  "update_talking f cm = (if talking f \<noteq> [] then cm\<lparr>is_talking := last (talking f)\<rparr> else cm)"

text \<open>
  Gaze estimation from face landmarks: nose tip 4, left cheek 234, right cheek 454,
  forehead 10, chin 152. The indices are read only under \<open>lm_count \<ge> 468\<close>. Every sum,
  difference and quotient is a \<^verbatim>\<open>float\<close> operation and rounds.
\<close>

definition face_center_x :: "(real \<Rightarrow> real) \<Rightarrow> Landmark list \<Rightarrow> real" where
  "face_center_x rnd lm = rnd (rnd (point_x (lm ! 234) + point_x (lm ! 454)) / 2)"

definition face_center_y :: "(real \<Rightarrow> real) \<Rightarrow> Landmark list \<Rightarrow> real" where
  "face_center_y rnd lm = rnd (rnd (point_y (lm ! 10) + point_y (lm ! 152)) / 2)"

definition face_width :: "(real \<Rightarrow> real) \<Rightarrow> Landmark list \<Rightarrow> real" where
  "face_width rnd lm = rnd (point_x (lm ! 454) - point_x (lm ! 234))"

definition face_height :: "(real \<Rightarrow> real) \<Rightarrow> Landmark list \<Rightarrow> real" where
  "face_height rnd lm = rnd (point_y (lm ! 152) - point_y (lm ! 10))"

definition update_gaze :: "(real \<Rightarrow> real) \<Rightarrow> Face \<Rightarrow> FocusMetrics \<Rightarrow> FocusMetrics" where
  "update_gaze rnd f cm =
     (if landmarks f \<noteq> [] then
        (let latest_lm = last (landmarks f);
             lm_count = length latest_lm
         in if lm_count \<ge> 468 then
              (if face_width rnd latest_lm > 1 \<and> face_height rnd latest_lm > 1 then
                 cm\<lparr>gaze_x := rnd (rnd (point_x (latest_lm ! 4) - face_center_x rnd latest_lm)
                                   / rnd (face_width rnd latest_lm / 2)),
                    gaze_y := rnd (rnd (point_y (latest_lm ! 4) - face_center_y rnd latest_lm)
                                   / rnd (face_height rnd latest_lm / 2)),
                    has_gaze := True\<rparr>
               else cm)
            else cm)
      else cm)"

text \<open>The whole function; \<open>now\<close> is the clock reading that the estimator takes.\<close>

definition process_edge_metrics ::
  "(real \<Rightarrow> real) \<Rightarrow> int \<Rightarrow> MetricsCollector \<Rightarrow> Metrics \<Rightarrow> int \<Rightarrow> MetricsCollector" where
  "process_edge_metrics rnd tpm c metrics now =
     (case face metrics of
        Some f \<Rightarrow>
          (let c1 = c\<lparr>current_metrics := (current_metrics c)\<lparr>face_detected := True\<rparr>\<rparr>;
               c2 = update_blink tpm f now c1;
               c3 = c2\<lparr>current_metrics := update_talking f (current_metrics c2)\<rparr>
           in c3\<lparr>current_metrics := update_gaze rnd f (current_metrics c3)\<rparr>)
      | None \<Rightarrow>
          c\<lparr>current_metrics := (current_metrics c)\<lparr>face_detected := False, has_gaze := False\<rparr>\<rparr>)"

subsection \<open>The blink rate as the specification words it\<close>

text \<open>
  The onsets of a call sequence: the clock readings of the calls whose flag is set while
  the flag of the call before (\<open>prev\<close> for the first call) is not. A blink held over
  consecutive calls has one onset.
\<close>

fun blink_onsets :: "bool \<Rightarrow> (bool \<times> int) list \<Rightarrow> int list" where
  "blink_onsets prev [] = []"
| "blink_onsets prev ((b, t) # calls) =
     (if b \<and> \<not> prev then t # blink_onsets b calls else blink_onsets b calls)"

text \<open>The number of onsets within the trailing 60 seconds that end at \<open>now\<close>.\<close>

definition onsets_in_window :: "int \<Rightarrow> (bool \<times> int) list \<Rightarrow> int \<Rightarrow> nat" where
  "onsets_in_window tpm calls now =
     length (filter (\<lambda>t. now - 60000 * tpm \<le> t \<and> t \<le> now) (blink_onsets False calls))"

subsection \<open>Snapshots and analyzers used as concrete inputs\<close>

definition face_snapshot :: FocusMetrics where
  "face_snapshot = FocusMetrics_default\<lparr>face_detected := True\<rparr>"

definition gaze_and_blink_snapshot :: FocusMetrics where
  "gaze_and_blink_snapshot =
     FocusMetrics_default\<lparr>face_detected := True, has_gaze := True, gaze_x := 1, gaze_y := 0,
       blink_rate_per_min := 30\<rparr>"

definition stressed_snapshot :: FocusMetrics where
  "stressed_snapshot =
     FocusMetrics_default\<lparr>face_detected := True, has_pulse := True, pulse_rate_bpm := 110,
       has_breathing := True, breathing_rate_bpm := 25\<rparr>"

definition pulse_only_snapshot :: FocusMetrics where
  "pulse_only_snapshot =
     FocusMetrics_default\<lparr>face_detected := True, has_pulse := True, pulse_rate_bpm := 110,
       has_breathing := True, breathing_rate_bpm := 15\<rparr>"

definition blinking_snapshot :: FocusMetrics where
  "blinking_snapshot =
     FocusMetrics_default\<lparr>face_detected := True, blink_rate_per_min := 30,
       has_breathing := True, breathing_rate_bpm := 10\<rparr>"

definition calm_snapshot :: FocusMetrics where
  "calm_snapshot =
     FocusMetrics_default\<lparr>face_detected := True, has_pulse := True, pulse_rate_bpm := 80\<rparr>"

text \<open>An analyzer built with the pulse threshold set to -100, as \<^verbatim>\<open>--pulse_threshold=-100\<close> does.\<close>

definition negative_pulse_analyzer :: FocusAnalyzer where
  "negative_pulse_analyzer =
     FocusAnalyzer_new (FocusThresholds_default\<lparr>pulse_stressed_threshold := - 100\<rparr>) 0"

text \<open>An analyzer whose timeout is the binary32 value 30603.791015625 s (about eight and a half hours).\<close>

definition long_timeout_analyzer :: FocusAnalyzer where
  "long_timeout_analyzer =
     FocusAnalyzer_new (FocusThresholds_default\<lparr>face_absence_timeout_s := 15669141 / 512\<rparr>) 0"

text \<open>
  A dense face mesh of 468 points of which only the five points that the gaze estimation
  reads are set: the nose tip, the two cheeks (x only) and forehead and chin (y only).
\<close>

definition mesh :: "real \<Rightarrow> real \<Rightarrow> real \<Rightarrow> real \<Rightarrow> real \<Rightarrow> real \<Rightarrow> Landmark list" where
  "mesh nose_x nose_y left_x right_x top_y bottom_y =
     (replicate 468 \<lparr>point_x = 0, point_y = 0\<rparr>)
       [4 := \<lparr>point_x = nose_x, point_y = nose_y\<rparr>,
        234 := \<lparr>point_x = left_x, point_y = 0\<rparr>,
        454 := \<lparr>point_x = right_x, point_y = 0\<rparr>,
        10 := \<lparr>point_x = 0, point_y = top_y\<rparr>,
        152 := \<lparr>point_x = 0, point_y = bottom_y\<rparr>]"

text \<open>A frame message with a face that carries the given landmark sets and nothing else.\<close>

definition frame_with :: "Landmark list list \<Rightarrow> Metrics" where
  "frame_with lms = \<lparr>face = Some \<lparr>blinking = [], talking = [], landmarks = lms\<rparr>\<rparr>"

text \<open>
  A frame with a full mesh: cheeks at x = 100 and 300, forehead and chin at y = 50 and 250,
  the nose tip at (300, 150), which gives the gaze (1, 0).
\<close>

definition good_frame :: Metrics where
  "good_frame = frame_with [mesh 300 150 100 300 50 250]"

text \<open>A frame with a face whose latest landmark set has no points.\<close>

definition sparse_frame :: Metrics where
  "sparse_frame = frame_with [[]]"

text \<open>
  A snapshot whose gaze is (\<^verbatim>\<open>0.3f\<close>, \<^verbatim>\<open>1e-5f\<close>), the binary32 values nearest to 0.3 and
  0.00001, with a face and 30 blinks per minute.
\<close>

definition grazing_gaze_snapshot :: FocusMetrics where
  "grazing_gaze_snapshot =
     FocusMetrics_default\<lparr>face_detected := True, has_gaze := True,
       gaze_x := 5033165 / 16777216, gaze_y := 2748779 / 274877906944,
       blink_rate_per_min := 30\<rparr>"

subsection \<open>The conditions and the score policy as the specification words them\<close>

text \<open>The DROWSY trigger as the specification collapses it: the blink rate exceeds the threshold.\<close>

definition drowsy_condition_spec :: "FocusThresholds \<Rightarrow> FocusMetrics \<Rightarrow> bool" where
  "drowsy_condition_spec th m = (blink_rate_per_min m > blink_rate_drowsy_threshold th)"


section \<open>Properties of binary32 rounding\<close>

lemma rne_of_int: "rne (of_int n) = n"
  by (simp add: rne_def)

lemma rne_floor: "rne t = \<lfloor>t\<rfloor> \<or> rne t = \<lfloor>t\<rfloor> + 1"
  by (simp add: rne_def Let_def)

lemma rne_mono:
  assumes "t \<le> u"
  shows "rne t \<le> rne u"
proof (cases "\<lfloor>t\<rfloor> = \<lfloor>u\<rfloor>")
  case True
  then show ?thesis using assms by (auto simp add: rne_def Let_def)
next
  case False
  then have "\<lfloor>t\<rfloor> < \<lfloor>u\<rfloor>" using assms floor_mono [of t u] by linarith
  then have "rne t \<le> \<lfloor>u\<rfloor>" using rne_floor [of t] by linarith
  moreover have "\<lfloor>u\<rfloor> \<le> rne u" using rne_floor [of u] by linarith
  ultimately show ?thesis by linarith
qed

lemma rne_le: "t \<le> of_int n \<Longrightarrow> rne t \<le> n"
  using rne_mono [of t "of_int n"] by (simp add: rne_of_int)

lemma rne_ge: "of_int n \<le> t \<Longrightarrow> n \<le> rne t"
  using rne_mono [of "of_int n" t] by (simp add: rne_of_int)

lemma rne_near:
  assumes "of_int n - 1 / 2 < t" and "t < of_int n + 1 / 2"
  shows "rne t = n"
proof -
  have "\<lfloor>t\<rfloor> = n \<or> \<lfloor>t\<rfloor> = n - 1" using assms by linarith
  then show ?thesis
  proof
    assume f: "\<lfloor>t\<rfloor> = n"
    then have "t - of_int \<lfloor>t\<rfloor> < 1 / 2" using assms by simp
    then show ?thesis using f by (simp add: rne_def Let_def)
  next
    assume f: "\<lfloor>t\<rfloor> = n - 1"
    then have "1 / 2 < t - of_int \<lfloor>t\<rfloor>" using assms by simp
    then show ?thesis using f by (simp add: rne_def Let_def)
  qed
qed

lemma ulp_exponent_bounds:
  "e0 \<le> 104 \<Longrightarrow> e0 \<le> ulp_exponent e0 ax \<and> ulp_exponent e0 ax \<le> 104"
proof (induction e0 ax rule: ulp_exponent.induct)
  case (1 e ax)
  show ?case
  proof (cases "104 \<le> e \<or> ax < 2 powi (e + 24)")
    case True
    then show ?thesis using "1.prems" by (subst ulp_exponent.simps, subst (2) ulp_exponent.simps) simp
  next
    case False
    then have "e + 1 \<le> ulp_exponent (e + 1) ax \<and> ulp_exponent (e + 1) ax \<le> 104"
      using "1.IH" by simp
    then show ?thesis using False by (subst ulp_exponent.simps, subst (2) ulp_exponent.simps) simp
  qed
qed

lemma ulp_exponent_upper:
  "ulp_exponent e0 ax < 104 \<Longrightarrow> ax < 2 powi (ulp_exponent e0 ax + 24)"
proof (induction e0 ax rule: ulp_exponent.induct)
  case (1 e ax)
  show ?case
  proof (cases "104 \<le> e \<or> ax < 2 powi (e + 24)")
    case True
    then have eq: "ulp_exponent e ax = e" by (subst ulp_exponent.simps) simp
    then show ?thesis using "1.prems" True by simp
  next
    case False
    then have eq: "ulp_exponent e ax = ulp_exponent (e + 1) ax" by (subst ulp_exponent.simps) simp
    then show ?thesis using "1.IH" False "1.prems" by simp
  qed
qed

lemma ulp_exponent_lower:
  "e0 < ulp_exponent e0 ax \<Longrightarrow> 2 powi (ulp_exponent e0 ax + 23) \<le> ax"
proof (induction e0 ax rule: ulp_exponent.induct)
  case (1 e ax)
  show ?case
  proof (cases "104 \<le> e \<or> ax < 2 powi (e + 24)")
    case True
    then have eq: "ulp_exponent e ax = e" by (subst ulp_exponent.simps) simp
    then show ?thesis using "1.prems" by simp
  next
    case False
    then have eq: "ulp_exponent e ax = ulp_exponent (e + 1) ax" by (subst ulp_exponent.simps) simp
    show ?thesis
    proof (cases "e + 1 < ulp_exponent (e + 1) ax")
      case True
      then show ?thesis using "1.IH" False eq by simp
    next
      case no: False
      have "e + 1 \<le> ulp_exponent (e + 1) ax"
        using ulp_exponent_bounds [of "e + 1" ax] False by simp
      then have "ulp_exponent (e + 1) ax = e + 1" using no by simp
      then show ?thesis using False eq by (simp add: add.commute)
    qed
  qed
qed

lemma ulp_exponent_eq:
  assumes "e0 \<le> e" and "e \<le> 104"
    and "e = e0 \<or> 2 powi (e + 23) \<le> ax"
    and "e = 104 \<or> ax < 2 powi (e + 24)"
  shows "ulp_exponent e0 ax = e"
proof -
  let ?u = "ulp_exponent e0 ax"
  have b: "e0 \<le> ?u" "?u \<le> 104" using ulp_exponent_bounds [of e0 ax] assms(1,2) by simp_all
  have "\<not> ?u < e"
  proof
    assume lt: "?u < e"
    then have "ax < 2 powi (?u + 24)" using ulp_exponent_upper [of e0 ax] assms(2) by simp
    moreover have "2 powi (e + 23) \<le> ax" using assms(3) lt b(1) by auto
    moreover have "(2::real) powi (?u + 24) \<le> 2 powi (e + 23)"
      using lt by (intro power_int_increasing) simp_all
    ultimately show False by linarith
  qed
  moreover have "\<not> e < ?u"
  proof
    assume lt: "e < ?u"
    then have "2 powi (?u + 23) \<le> ax" using ulp_exponent_lower [of e0 ax] assms(1) by simp
    moreover have "ax < 2 powi (e + 24)" using assms(4) lt b(2) by auto
    moreover have "(2::real) powi (e + 24) \<le> 2 powi (?u + 23)"
      using lt by (intro power_int_increasing) simp_all
    ultimately show False by linarith
  qed
  ultimately show ?thesis by simp
qed

lemma fl32_eq:
  assumes "- 149 \<le> e" and "e \<le> 104"
    and "e = - 149 \<or> 2 powi (e + 23) \<le> \<bar>v\<bar>"
    and "e = 104 \<or> \<bar>v\<bar> < 2 powi (e + 24)"
  shows "fl32 v = of_int (rne (v / 2 powi e)) * 2 powi e"
  using ulp_exponent_eq [OF assms] by (simp add: fl32_def)


lemma fl32_nonneg: "0 \<le> v \<Longrightarrow> 0 \<le> fl32 v"
proof -
  assume "0 \<le> v"
  then have "0 \<le> v / 2 powi ulp_exponent (- 149) \<bar>v\<bar>" by simp
  then have "0 \<le> rne (v / 2 powi ulp_exponent (- 149) \<bar>v\<bar>)"
    using rne_ge [of 0] by simp
  then show ?thesis by (simp add: fl32_def Let_def)
qed

lemma fl32_nonpos: "v \<le> 0 \<Longrightarrow> fl32 v \<le> 0"
proof -
  assume "v \<le> 0"
  then have "v / 2 powi ulp_exponent (- 149) \<bar>v\<bar> \<le> 0" by (simp add: divide_nonpos_pos)
  then have "rne (v / 2 powi ulp_exponent (- 149) \<bar>v\<bar>) \<le> 0"
    using rne_le [of _ 0] by simp
  then show ?thesis by (simp add: fl32_def Let_def mult_nonpos_nonneg)
qed

lemma ulp_exponent_mono:
  assumes "ax \<le> ay" and "e0 \<le> 104"
  shows "ulp_exponent e0 ax \<le> ulp_exponent e0 ay"
proof (rule ccontr)
  let ?x = "ulp_exponent e0 ax" and ?y = "ulp_exponent e0 ay"
  assume "\<not> ?x \<le> ?y"
  then have lt: "?y < ?x" by simp
  have bx: "e0 \<le> ?x" "?x \<le> 104" using ulp_exponent_bounds [OF assms(2), of ax] by simp_all
  have yb: "e0 \<le> ?y" "?y \<le> 104" using ulp_exponent_bounds [OF assms(2), of ay] by simp_all
  have "ay < 2 powi (?y + 24)" using ulp_exponent_upper [of e0 ay] lt bx(2) by simp
  moreover have "2 powi (?x + 23) \<le> ax" using ulp_exponent_lower [of e0 ax] lt yb(1) by simp
  moreover have "(2::real) powi (?y + 24) \<le> 2 powi (?x + 23)"
    using lt by (intro power_int_increasing) simp_all
  ultimately show False using assms(1) by linarith
qed

lemma fl32_mono_pos:
  assumes "0 < v" and "v \<le> w"
  shows "fl32 v \<le> fl32 w"
proof -
  let ?x = "ulp_exponent (- 149) \<bar>v\<bar>" and ?y = "ulp_exponent (- 149) \<bar>w\<bar>"
  have le: "?x \<le> ?y" using assms by (intro ulp_exponent_mono) simp_all
  have bx: "- 149 \<le> ?x" "?x \<le> 104" using ulp_exponent_bounds [of "- 149" "\<bar>v\<bar>"] by simp_all
  show ?thesis
  proof (cases "?x = ?y")
    case True
    have "v / 2 powi ?x \<le> w / 2 powi ?x" using assms by (simp add: divide_right_mono)
    then have "rne (v / 2 powi ?x) \<le> rne (w / 2 powi ?x)" by (rule rne_mono)
    then have "of_int (rne (v / 2 powi ?x)) * 2 powi ?x \<le> of_int (rne (w / 2 powi ?x)) * (2::real) powi ?x"
      by (simp add: mult_right_mono)
    then show ?thesis using True by (simp add: fl32_def Let_def)
  next
    case False
    then have lt: "?x < ?y" using le by simp
    then have "\<bar>v\<bar> < 2 powi (?x + 24)"
      using ulp_exponent_upper [of "- 149" "\<bar>v\<bar>"] ulp_exponent_bounds [of "- 149" "\<bar>w\<bar>"] by simp
    then have "v < 2 powi ?x * 2 powi 24" using assms(1) by (simp add: power_int_add)
    then have "v / 2 powi ?x \<le> of_int 16777216" by (simp add: divide_simps mult.commute)
    then have rx: "rne (v / 2 powi ?x) \<le> 16777216" by (rule rne_le)
    have "2 powi (?y + 23) \<le> \<bar>w\<bar>"
      using ulp_exponent_lower [of "- 149" "\<bar>w\<bar>"] lt bx(1) by simp
    then have "2 powi ?y * 2 powi 23 \<le> w" using assms by (simp add: power_int_add)
    then have "of_int 8388608 \<le> w / 2 powi ?y" by (simp add: divide_simps mult.commute)
    then have ry: "8388608 \<le> rne (w / 2 powi ?y)" by (rule rne_ge)
    have "fl32 v \<le> 16777216 * 2 powi ?x"
      using rx by (simp add: fl32_def Let_def)
    also have "\<dots> = 2 powi (?x + 24)" by (simp add: power_int_add)
    also have "\<dots> \<le> 2 powi (?y + 23)" using lt by (intro power_int_increasing) simp_all
    also have "\<dots> = 8388608 * 2 powi ?y" by (simp add: power_int_add)
    also have "\<dots> \<le> fl32 w" using ry by (simp add: fl32_def Let_def)
    finally show ?thesis .
  qed
qed

lemma fl32_mono:
  assumes "v \<le> w" and "0 \<le> w"
  shows "fl32 v \<le> fl32 w"
proof (cases "0 < v")
  case True
  then show ?thesis using assms(1) by (rule fl32_mono_pos)
next
  case False
  then have "fl32 v \<le> 0" by (simp add: fl32_nonpos)
  moreover have "0 \<le> fl32 w" using assms(2) by (rule fl32_nonneg)
  ultimately show ?thesis by simp
qed

lemma fl32_representable:
  assumes "\<bar>n\<bar> < 16777216" and "- 149 \<le> e" and "e \<le> 104"
  shows "fl32 (of_int n * 2 powi e) = of_int n * 2 powi e"
proof -
  let ?v = "of_int n * (2::real) powi e"
  let ?u = "ulp_exponent (- 149) \<bar>?v\<bar>"
  have b: "- 149 \<le> ?u" "?u \<le> 104" using ulp_exponent_bounds [of "- 149" "\<bar>?v\<bar>"] by simp_all
  have "\<bar>?v\<bar> = of_int \<bar>n\<bar> * 2 powi e" by (simp add: abs_mult)
  also have "\<dots> < 16777216 * 2 powi e"
    using assms(1) by (intro mult_strict_right_mono) simp_all
  also have "\<dots> = 2 powi (e + 24)" by (simp add: power_int_add)
  finally have up: "\<bar>?v\<bar> < 2 powi (e + 24)" .
  have "?u \<le> e"
  proof (rule ccontr)
    assume "\<not> ?u \<le> e"
    then have lt: "e < ?u" by simp
    then have "2 powi (?u + 23) \<le> \<bar>?v\<bar>"
      using ulp_exponent_lower [of "- 149" "\<bar>?v\<bar>"] assms(2) by simp
    moreover have "(2::real) powi (e + 24) \<le> 2 powi (?u + 23)"
      using lt by (intro power_int_increasing) simp_all
    ultimately show False using up by linarith
  qed
  then obtain k where k: "e = ?u + int k" by (metis zle_iff_zadd)
  have "?v / 2 powi ?u = of_int n * (2 powi ?u * 2 powi int k) / 2 powi ?u"
    by (subst k) (simp add: power_int_add)
  also have "\<dots> = of_int (n * 2 ^ k)" by simp
  finally have "rne (?v / 2 powi ?u) = n * 2 ^ k" by (simp only: rne_of_int)
  then have "fl32 ?v = of_int (n * 2 ^ k) * 2 powi ?u" by (simp add: fl32_def Let_def)
  also have "\<dots> = of_int n * (2 powi ?u * 2 powi int k)" by simp
  also have "\<dots> = ?v" by (subst (2) k) (simp add: power_int_add)
  finally show ?thesis .
qed

lemma fl32_of_int: "\<bar>n\<bar> < 16777216 \<Longrightarrow> fl32 (of_int n) = of_int n"
  using fl32_representable [of n 0] by simp

lemma fl32_sqrt:
  assumes "- 149 \<le> e" and "e \<le> 104" and "8388608 < n" and "n < 16777216"
    and "((of_int n - 1 / 2) * 2 powi e)\<^sup>2 < v"
    and "v < ((of_int n + 1 / 2) * 2 powi e)\<^sup>2"
  shows "fl32 (sqrt v) = of_int n * 2 powi e"
proof -
  have lo: "(of_int n - 1 / 2) * 2 powi e < sqrt v"
    using assms(5) by (intro real_less_rsqrt)
  have pos: "0 \<le> (of_int n + 1 / 2) * (2::real) powi e" using assms(3) by simp
  have hi: "sqrt v < (of_int n + 1 / 2) * 2 powi e"
    using assms(6) pos by (intro real_less_lsqrt) simp_all
  have "0 < (of_int n - 1 / 2) * (2::real) powi e" using assms(3) by simp
  then have sp: "0 < sqrt v" using lo by linarith
  have t: "of_int n - 1 / 2 < sqrt v / 2 powi e" "sqrt v / 2 powi e < of_int n + 1 / 2"
    using lo hi by (simp_all add: divide_simps)
  have r: "rne (sqrt v / 2 powi e) = n" using t by (rule rne_near)
  have "8388608 \<le> sqrt v / 2 powi e" using t(1) assms(3) by linarith
  then have "2 powi e * 2 powi 23 \<le> sqrt v" by (simp add: divide_simps mult.commute)
  then have c1: "2 powi (e + 23) \<le> \<bar>sqrt v\<bar>" using sp by (simp add: power_int_add)
  have "sqrt v / 2 powi e < 16777216" using t(2) assms(4) by linarith
  then have "sqrt v < 2 powi e * 2 powi 24" by (simp add: divide_simps mult.commute)
  then have c2: "\<bar>sqrt v\<bar> < 2 powi (e + 24)" using sp by (simp add: power_int_add)
  show ?thesis
    using fl32_eq [OF assms(1,2), of "sqrt v"] c1 c2 r by simp
qed

lemma fl32_0 [simp]: "fl32 0 = 0"
  using fl32_of_int [of 0] by simp

lemma fl32_1 [simp]: "fl32 1 = 1"
  using fl32_of_int [of 1] by simp

lemma fl32_numeral [simp]: "(numeral k :: int) < 16777216 \<Longrightarrow> fl32 (numeral k) = numeral k"
  using fl32_of_int [of "numeral k"] by simp


text \<open>The literal \<^verbatim>\<open>0.3f\<close>.\<close>

lemma fl32_3_10: "fl32 (3 / 10) = 5033165 / 16777216"
  by (subst fl32_eq [where e = "- 25"]) (simp_all add: rne_def Let_def)

section \<open>Properties of the classifier\<close>

lemmas analyze_defs = analyze_def track_face_def check_away_def check_talking_def
  check_distracted_def check_drowsy_def check_stressed_def check_focused_def still_unknown_def

lemmas snapshot_defs = FocusMetrics_default_def FocusThresholds_default_def FocusAnalyzer_new_def
  face_snapshot_def gaze_and_blink_snapshot_def stressed_snapshot_def pulse_only_snapshot_def
  blinking_snapshot_def calm_snapshot_def negative_pulse_analyzer_def

lemma analyze_face_tracker:
  "ever_seen_face (snd (analyze rnd tpm a m now)) = (face_detected m \<or> ever_seen_face a)"
  "last_face_seen (snd (analyze rnd tpm a m now)) = (if face_detected m then now else last_face_seen a)"
  "thresholds (snd (analyze rnd tpm a m now)) = thresholds a"
  by (simp_all add: analyze_def track_face_def Let_def)

lemma gaze_mag_exact: "gaze_mag exact m = sqrt ((gaze_x m)\<^sup>2 + (gaze_y m)\<^sup>2)"
  by (simp add: gaze_mag_def exact_def power2_eq_square)



text \<open>
  Claim C4. A classifier whose ever-seen flag is false, given a snapshot without a face,
  answers UNKNOWN with score 0.5 at every clock reading, and its flag stays false.
\<close>

theorem never_seen_face_unknown:
  assumes "\<not> ever_seen_face a" and "\<not> face_detected m"
  shows "fst (analyze rnd tpm a m now) = (UNKNOWN, 1 / 2)
         \<and> \<not> ever_seen_face (snd (analyze rnd tpm a m now))"
  using assms
  by (simp add: analyze_def track_face_def check_away_def still_unknown_def Let_def)

theorem never_seen_face_unknown_witness:
  "\<not> ever_seen_face (FocusAnalyzer_new FocusThresholds_default 0)
   \<and> \<not> face_detected FocusMetrics_default
   \<and> fst (analyze fl32 1000000 (FocusAnalyzer_new FocusThresholds_default 0) FocusMetrics_default
        3600000000000) = (UNKNOWN, 1 / 2)"
  using never_seen_face_unknown
    [where a = "FocusAnalyzer_new FocusThresholds_default 0" and m = FocusMetrics_default
       and rnd = fl32 and tpm = 1000000 and now = 3600000000000]
  by (simp add: FocusAnalyzer_new_def FocusMetrics_default_def)

text \<open>
  Claim C9. Whenever the snapshot has a face, the state returned is TALKING, DISTRACTED,
  DROWSY, STRESSED or FOCUSED (so neither UNKNOWN nor AWAY), and the call has set the
  ever-seen flag and the last-seen time.
\<close>

theorem face_present_states:
  assumes "face_detected m"
  shows "fst (fst (analyze rnd tpm a m now)) \<in> {TALKING, DISTRACTED, DROWSY, STRESSED, FOCUSED}
         \<and> fst (fst (analyze rnd tpm a m now)) \<noteq> UNKNOWN
         \<and> fst (fst (analyze rnd tpm a m now)) \<noteq> AWAY
         \<and> ever_seen_face (snd (analyze rnd tpm a m now))
         \<and> last_face_seen (snd (analyze rnd tpm a m now)) = now"
  using assms by (simp add: analyze_defs Let_def)

theorem face_present_states_witness:
  "face_detected face_snapshot
   \<and> fst (fst (analyze fl32 1000000 (FocusAnalyzer_new FocusThresholds_default 0) face_snapshot
        5000000000)) \<in> {TALKING, DISTRACTED, DROWSY, STRESSED, FOCUSED}"
  using face_present_states
    [where m = face_snapshot and rnd = fl32 and tpm = 1000000
       and a = "FocusAnalyzer_new FocusThresholds_default 0" and now = 5000000000]
  by (simp add: face_snapshot_def FocusMetrics_default_def)

text \<open>
  Claim C2, as the code has it. A snapshot with a face, not talking, with a gaze whose
  magnitude as the code computes it (the rounded square root of the rounded sum of the two
  rounded squares) is above the distraction threshold, and with a blink rate above the
  drowsy threshold, is classified DISTRACTED, not DROWSY. Its score is
  \<open>max 0.1 (0.6 - magnitude * 0.3)\<close> on that magnitude, in the code's arithmetic.
\<close>

theorem distracted_before_drowsy:
  assumes "face_detected m" and "\<not> is_talking m" and "has_gaze m"
    and "rnd (sqrt (rnd (rnd (gaze_x m * gaze_x m) + rnd (gaze_y m * gaze_y m))))
           > gaze_distraction_threshold (thresholds a)"
    and "blink_rate_per_min m > blink_rate_drowsy_threshold (thresholds a)"
  shows "fst (analyze rnd tpm a m now) =
           (DISTRACTED,
            max (rnd (1 / 10)) (rnd (rnd (6 / 10) - rnd (gaze_mag rnd m * rnd (3 / 10)))))
         \<and> gaze_mag rnd m = rnd (sqrt (rnd (rnd (gaze_x m * gaze_x m) + rnd (gaze_y m * gaze_y m))))
         \<and> fst (fst (analyze rnd tpm a m now)) \<noteq> DROWSY"
  using assms by (simp add: analyze_defs gaze_mag_def Let_def)

theorem distracted_before_drowsy_witness:
  "face_detected gaze_and_blink_snapshot \<and> \<not> is_talking gaze_and_blink_snapshot
   \<and> has_gaze gaze_and_blink_snapshot
   \<and> gaze_mag fl32 gaze_and_blink_snapshot = 1
   \<and> 1 > gaze_distraction_threshold FocusThresholds_default
   \<and> blink_rate_per_min gaze_and_blink_snapshot > blink_rate_drowsy_threshold FocusThresholds_default
   \<and> fst (fst (analyze fl32 1000000 (FocusAnalyzer_new FocusThresholds_default 0)
        gaze_and_blink_snapshot 0)) = DISTRACTED"
  using distracted_before_drowsy
    [where m = gaze_and_blink_snapshot and rnd = fl32 and tpm = 1000000
       and a = "FocusAnalyzer_new FocusThresholds_default 0" and now = 0]
  by (simp add: snapshot_defs gaze_mag_def fl32_3_10)

text \<open>
  The gaze (\<^verbatim>\<open>0.3f\<close>, \<^verbatim>\<open>1e-5f\<close>) has a magnitude strictly above the default threshold
  \<^verbatim>\<open>0.3f\<close>, and the blink rate 30 is above 25. In binary32 the sum of the squares rounds to
  the square of \<^verbatim>\<open>0.3f\<close> rounded, and its square root rounds to \<^verbatim>\<open>0.3f\<close>: the computed
  magnitude is not above the threshold and the state is DROWSY.
\<close>

theorem grazing_gaze_counterexample:
  "face_detected grazing_gaze_snapshot \<and> \<not> is_talking grazing_gaze_snapshot
   \<and> has_gaze grazing_gaze_snapshot
   \<and> sqrt ((gaze_x grazing_gaze_snapshot)\<^sup>2 + (gaze_y grazing_gaze_snapshot)\<^sup>2)
       > gaze_distraction_threshold FocusThresholds_default
   \<and> blink_rate_per_min grazing_gaze_snapshot > blink_rate_drowsy_threshold FocusThresholds_default
   \<and> fst (fst (analyze fl32 1000000 (FocusAnalyzer_new FocusThresholds_default 0)
        grazing_gaze_snapshot 0)) = DROWSY"
proof -
  have xx: "fl32 (5033165 / 16777216 * (5033165 / 16777216)) = 3019899 / 33554432"
    by (subst fl32_eq [where e = "- 27"]) (simp_all add: rne_def Let_def)
  have yy: "fl32 (2748779 / 274877906944 * (2748779 / 274877906944)) = 7205759 / 72057594037927936"
    by (subst fl32_eq [where e = "- 57"]) (simp_all add: rne_def Let_def)
  have ss: "fl32 (3019899 / 33554432 + 7205759 / 72057594037927936) = 3019899 / 33554432"
    by (subst fl32_eq [where e = "- 27"]) (simp_all add: rne_def Let_def)
  have "fl32 (sqrt (3019899 / 33554432)) = of_int 10066330 * 2 powi (- 25)"
    by (rule fl32_sqrt) (simp_all add: power2_eq_square)
  then have sq: "fl32 (sqrt (3019899 / 33554432)) = 5033165 / 16777216"
    by simp
  have gx: "gaze_x grazing_gaze_snapshot = 5033165 / 16777216"
    and gy: "gaze_y grazing_gaze_snapshot = 2748779 / 274877906944"
    by (simp_all add: grazing_gaze_snapshot_def)
  have mag: "gaze_mag fl32 grazing_gaze_snapshot = 5033165 / 16777216"
    by (simp only: gaze_mag_def gx gy xx yy ss sq)
  have "(5033165 / 16777216 :: real)\<^sup>2 < (5033165 / 16777216)\<^sup>2 + (2748779 / 274877906944)\<^sup>2"
    by simp
  then have "5033165 / 16777216 < sqrt ((5033165 / 16777216)\<^sup>2 + (2748779 / 274877906944)\<^sup>2)"
    by (rule real_less_rsqrt)
  then have above: "sqrt ((gaze_x grazing_gaze_snapshot)\<^sup>2 + (gaze_y grazing_gaze_snapshot)\<^sup>2)
       > gaze_distraction_threshold FocusThresholds_default"
    by (simp add: grazing_gaze_snapshot_def FocusThresholds_default_def fl32_3_10)
  have "fst (fst (analyze fl32 1000000 (FocusAnalyzer_new FocusThresholds_default 0)
        grazing_gaze_snapshot 0)) = DROWSY"
    by (simp add: analyze_defs mag drowsy_condition_def Let_def FocusAnalyzer_new_def
        FocusThresholds_default_def fl32_3_10)
       (simp add: grazing_gaze_snapshot_def FocusMetrics_default_def)
  then show ?thesis
    using above by (simp add: grazing_gaze_snapshot_def FocusMetrics_default_def
        FocusThresholds_default_def)
qed

text \<open>
  Claim C3. The state is STRESSED only if the snapshot has a face, a pulse above the pulse
  threshold and a breathing rate above the breathing threshold, both present. So a snapshot
  whose pulse is elevated while its breathing is absent or not above the threshold is
  never STRESSED.
\<close>

theorem stressed_needs_both:
  "(fst (fst (analyze rnd tpm a m now)) = STRESSED \<longrightarrow>
      face_detected m
      \<and> has_pulse m \<and> pulse_rate_bpm m > pulse_stressed_threshold (thresholds a)
      \<and> has_breathing m \<and> breathing_rate_bpm m > breathing_stressed_threshold (thresholds a))
   \<and> (face_detected m \<and> has_pulse m \<and> pulse_rate_bpm m > pulse_stressed_threshold (thresholds a)
      \<and> (\<not> has_breathing m \<or> \<not> breathing_rate_bpm m > breathing_stressed_threshold (thresholds a))
      \<longrightarrow> fst (fst (analyze rnd tpm a m now)) \<noteq> STRESSED)"
  by (simp add: analyze_defs stressed_condition_def Let_def)

theorem stressed_needs_both_witness:
  "fst (fst (analyze fl32 1000000 (FocusAnalyzer_new FocusThresholds_default 0) stressed_snapshot 0))
     = STRESSED
   \<and> has_pulse stressed_snapshot \<and> pulse_rate_bpm stressed_snapshot > 100
   \<and> has_breathing stressed_snapshot \<and> breathing_rate_bpm stressed_snapshot > 22
   \<and> face_detected pulse_only_snapshot \<and> has_pulse pulse_only_snapshot
   \<and> pulse_rate_bpm pulse_only_snapshot > 100
   \<and> \<not> breathing_rate_bpm pulse_only_snapshot > 22
   \<and> fst (fst (analyze fl32 1000000 (FocusAnalyzer_new FocusThresholds_default 0)
        pulse_only_snapshot 0)) \<noteq> STRESSED"
  using stressed_needs_both
    [where rnd = fl32 and tpm = 1000000 and a = "FocusAnalyzer_new FocusThresholds_default 0"
       and m = stressed_snapshot and now = 0]
    stressed_needs_both
    [where rnd = fl32 and tpm = 1000000 and a = "FocusAnalyzer_new FocusThresholds_default 0"
       and m = pulse_only_snapshot and now = 0]
  by (simp add: snapshot_defs analyze_defs stressed_condition_def drowsy_condition_def Let_def)

text \<open>
  Claim C7. The condition that the code tests for DROWSY,
  \<open>high_blink_rate \<or> (high_blink_rate \<and> slow_breathing)\<close>, is equivalent to the
  specification's condition that the blink rate exceeds the drowsy threshold. The check,
  reached with the state still UNKNOWN, chooses DROWSY exactly then, and replacing the
  breathing fields of the snapshot never changes whether the classifier answers DROWSY.
\<close>

theorem drowsy_condition_collapses:
  "drowsy_condition th m = drowsy_condition_spec th m
   \<and> check_drowsy rnd th m (UNKNOWN, sc) =
       (if blink_rate_per_min m > blink_rate_drowsy_threshold th then (DROWSY, rnd (15 / 100))
        else (UNKNOWN, sc))
   \<and> (fst (fst (analyze rnd tpm a (m\<lparr>has_breathing := hb, breathing_rate_bpm := br\<rparr>) now)) = DROWSY)
       = (fst (fst (analyze rnd tpm a m now)) = DROWSY)"
  by (auto simp add: analyze_defs drowsy_condition_def drowsy_condition_spec_def
      stressed_condition_def gaze_mag_def Let_def)

theorem drowsy_condition_collapses_witness:
  "drowsy_condition FocusThresholds_default blinking_snapshot
   \<and> blink_rate_per_min blinking_snapshot > blink_rate_drowsy_threshold FocusThresholds_default
   \<and> fst (fst (analyze fl32 1000000 (FocusAnalyzer_new FocusThresholds_default 0)
        (blinking_snapshot\<lparr>has_breathing := False, breathing_rate_bpm := 40\<rparr>) 0)) = DROWSY"
  using drowsy_condition_collapses
    [where th = FocusThresholds_default and m = blinking_snapshot and sc = "1 / 2"
       and rnd = fl32 and tpm = 1000000 and a = "FocusAnalyzer_new FocusThresholds_default 0"
       and hb = False and br = 40 and now = 0]
  by (simp add: snapshot_defs analyze_defs drowsy_condition_spec_def gaze_mag_def Let_def)

lemma no_face_keeps_tracker:
  assumes "list_all (\<lambda>c. \<not> face_detected (fst c)) calls"
  shows "ever_seen_face (analyze_all rnd tpm a calls) = ever_seen_face a
       \<and> last_face_seen (analyze_all rnd tpm a calls) = last_face_seen a
       \<and> thresholds (analyze_all rnd tpm a calls) = thresholds a"
  using assms
proof (induction calls arbitrary: a)
  case Nil
  then show ?case by simp
next
  case (Cons c calls)
  obtain m t where c: "c = (m, t)" by (cases c)
  from Cons.prems c have nf: "\<not> face_detected m" and rest: "list_all (\<lambda>c. \<not> face_detected (fst c)) calls"
    by simp_all
  show ?case
    using Cons.IH [OF rest, of "snd (analyze rnd tpm a m t)"] nf
    by (simp add: c analyze_face_tracker)
qed

lemma face_then_absent:
  assumes "face_detected mf" and "list_all (\<lambda>c. \<not> face_detected (fst c)) calls"
  shows "ever_seen_face (analyze_all rnd tpm a0 ((mf, t0) # calls))
       \<and> last_face_seen (analyze_all rnd tpm a0 ((mf, t0) # calls)) = t0
       \<and> thresholds (analyze_all rnd tpm a0 ((mf, t0) # calls)) = thresholds a0"
  using assms no_face_keeps_tracker [OF assms(2), of rnd tpm "snd (analyze rnd tpm a0 mf t0)"]
  by (simp add: analyze_face_tracker)

lemma away_iff:
  assumes "ever_seen_face a" and "\<not> face_detected m"
  shows "fst (analyze rnd tpm a m now) =
           (if absence_duration rnd tpm a now > face_absence_timeout_s (thresholds a)
            then (AWAY, 0) else (UNKNOWN, 1 / 2))"
  using assms by (simp add: analyze_defs Let_def)

text \<open>
  In binary32, an absence of fewer than 16777216 whole milliseconds whose elapsed time is
  at most a timeout that binary32 holds has a computed duration of at most the timeout.
\<close>

lemma absence_duration_fl32_le:
  assumes "0 < tpm" and "last_face_seen a \<le> now"
    and "(now - last_face_seen a) sdiv tpm < 16777216"
    and "fl32 timeout = timeout"
    and "real_of_int (now - last_face_seen a) / (1000 * real_of_int tpm) \<le> timeout"
  shows "absence_duration fl32 tpm a now \<le> timeout"
proof -
  let ?d = "now - last_face_seen a"
  have d0: "0 \<le> ?d" using assms(2) by simp
  then have sd: "?d sdiv tpm = ?d div tpm"
    using assms(1) by (simp add: signed_divide_int_def sgn_if)
  have ms0: "0 \<le> ?d div tpm" using d0 assms(1) by (simp add: pos_imp_zdiv_nonneg_iff)
  have "\<bar>?d div tpm\<bar> < 16777216" using ms0 assms(3) sd by simp
  then have conv: "fl32 (real_of_int (?d div tpm)) = real_of_int (?d div tpm)"
    by (rule fl32_of_int)
  have "real_of_int (?d div tpm) \<le> real_of_int ?d / real_of_int tpm"
    by (rule real_of_int_div4)
  then have "real_of_int (?d div tpm) / 1000 \<le> real_of_int ?d / real_of_int tpm / 1000"
    by (rule divide_right_mono) simp
  also have "\<dots> = real_of_int ?d / (1000 * real_of_int tpm)" by simp
  finally have "real_of_int (?d div tpm) / 1000 \<le> real_of_int ?d / (1000 * real_of_int tpm)" .
  then have le: "real_of_int (?d div tpm) / 1000 \<le> timeout" using assms(5) by linarith
  have "0 \<le> real_of_int (?d div tpm) / 1000" using ms0 by simp
  then have t0: "0 \<le> timeout" using le by linarith
  have "fl32 (real_of_int (?d div tpm) / 1000) \<le> fl32 timeout"
    using le t0 by (rule fl32_mono)
  then show ?thesis
    by (simp add: absence_duration_def sd conv assms(4))
qed

text \<open>
  Claim C5, as the code has it. A classifier sees a face at clock reading \<open>t0\<close> and
  then only snapshots without a face. At a later reading \<open>now\<close>:
  \<^item> the result is AWAY with score 0 exactly when the absence duration that the code
    computes is strictly greater than the timeout, and UNKNOWN with score 0.5 otherwise.
    The computed duration is the elapsed time truncated to whole milliseconds, converted
    to \<^verbatim>\<open>float\<close> and divided by \<^verbatim>\<open>1000.0f\<close>;
  \<^item> in binary32, with a timeout that binary32 holds and an absence of fewer than
    16777216 whole milliseconds, the state is not AWAY while the elapsed time
    \<open>(now - t0) / (1000 * tpm)\<close> seconds is at most the timeout.
\<close>

theorem away_after_timeout:
  assumes "0 < tpm" and "face_detected mf"
    and "list_all (\<lambda>c. \<not> face_detected (fst c)) calls"
    and "\<not> face_detected m" and "t0 \<le> now"
  shows "fst (analyze rnd tpm (analyze_all rnd tpm a0 ((mf, t0) # calls)) m now) =
           (if rnd (rnd (real_of_int ((now - t0) sdiv tpm)) / 1000)
                 > face_absence_timeout_s (thresholds a0)
            then (AWAY, 0) else (UNKNOWN, 1 / 2))
       \<and> (fl32 (face_absence_timeout_s (thresholds a0)) = face_absence_timeout_s (thresholds a0)
          \<and> (now - t0) sdiv tpm < 16777216
          \<and> real_of_int (now - t0) / (1000 * real_of_int tpm) \<le> face_absence_timeout_s (thresholds a0)
          \<longrightarrow> fst (fst (analyze fl32 tpm (analyze_all fl32 tpm a0 ((mf, t0) # calls)) m now)) \<noteq> AWAY)"
proof -
  define a where "a = analyze_all rnd tpm a0 ((mf, t0) # calls)"
  define b where "b = analyze_all fl32 tpm a0 ((mf, t0) # calls)"
  have tr: "ever_seen_face a" "last_face_seen a = t0" "thresholds a = thresholds a0"
    unfolding a_def using face_then_absent [OF assms(2,3)] by blast+
  have trb: "ever_seen_face b" "last_face_seen b = t0" "thresholds b = thresholds a0"
    unfolding b_def using face_then_absent [OF assms(2,3)] by blast+
  have first: "fst (analyze rnd tpm a m now) =
           (if rnd (rnd (real_of_int ((now - t0) sdiv tpm)) / 1000)
                 > face_absence_timeout_s (thresholds a0)
            then (AWAY, 0) else (UNKNOWN, 1 / 2))"
    using away_iff [OF tr(1) assms(4)] by (simp add: absence_duration_def tr(2,3))
  have second: "fst (fst (analyze fl32 tpm b m now)) \<noteq> AWAY"
    if h: "fl32 (face_absence_timeout_s (thresholds a0)) = face_absence_timeout_s (thresholds a0)"
       "(now - t0) sdiv tpm < 16777216"
       "real_of_int (now - t0) / (1000 * real_of_int tpm) \<le> face_absence_timeout_s (thresholds a0)"
  proof -
    have "absence_duration fl32 tpm b now \<le> face_absence_timeout_s (thresholds a0)"
      using absence_duration_fl32_le [of tpm b now "face_absence_timeout_s (thresholds a0)"]
        assms(1,5) h trb(2) by simp
    then show ?thesis
      using away_iff [OF trb(1) assms(4), of fl32 tpm now] by (simp add: trb(3))
  qed
  show ?thesis
    using first second unfolding a_def b_def by blast
qed

theorem away_after_timeout_witness:
  "(0::int) < 1000000 \<and> face_detected face_snapshot
   \<and> list_all (\<lambda>c. \<not> face_detected (fst c)) [(FocusMetrics_default, 1000000000)]
   \<and> \<not> face_detected FocusMetrics_default
   \<and> fst (fst (analyze fl32 1000000
           (analyze_all fl32 1000000 (FocusAnalyzer_new FocusThresholds_default 0)
              [(face_snapshot, 0), (FocusMetrics_default, 1000000000)])
           FocusMetrics_default 2000000000)) \<noteq> AWAY
   \<and> fst (analyze fl32 1000000
           (analyze_all fl32 1000000 (FocusAnalyzer_new FocusThresholds_default 0)
              [(face_snapshot, 0), (FocusMetrics_default, 1000000000)])
           FocusMetrics_default 4000000000) = (AWAY, 0)"
  using away_after_timeout
      [where rnd = fl32 and tpm = 1000000 and mf = face_snapshot
         and calls = "[(FocusMetrics_default, 1000000000)]" and m = FocusMetrics_default
         and ?t0.0 = 0 and now = 2000000000 and ?a0.0 = "FocusAnalyzer_new FocusThresholds_default 0"]
    away_after_timeout
      [where rnd = fl32 and tpm = 1000000 and mf = face_snapshot
         and calls = "[(FocusMetrics_default, 1000000000)]" and m = FocusMetrics_default
         and ?t0.0 = 0 and now = 4000000000 and ?a0.0 = "FocusAnalyzer_new FocusThresholds_default 0"]
  by (simp add: snapshot_defs signed_divide_int_def)

text \<open>
  On a nanosecond clock, 3.0005 s after the face was seen and with the default timeout of
  3 s, the elapsed time is strictly greater than the timeout and the state is UNKNOWN:
  the duration is truncated to 3000 ms first, and \<^verbatim>\<open>3000 / 1000.0f\<close> is 3.
\<close>

theorem away_boundary_counterexample:
  "real_of_int (3000500000 - 0) / (1000 * real_of_int 1000000) > face_absence_timeout_s FocusThresholds_default
   \<and> fst (analyze fl32 1000000
           (analyze_all fl32 1000000 (FocusAnalyzer_new FocusThresholds_default 0) [(face_snapshot, 0)])
           FocusMetrics_default 3000500000) = (UNKNOWN, 1 / 2)"
  by (simp add: snapshot_defs analyze_defs absence_duration_def signed_divide_int_def Let_def)

text \<open>
  Beyond 16777216 ms the conversion of the millisecond count to \<^verbatim>\<open>float\<close> can round up.
  With the timeout 30603.791015625 s and a nanosecond clock, 30603.791 s after the face was
  seen the elapsed time is below the timeout, the count 30603791 becomes 30603792, the
  quotient rounds to 30603.79296875, and the state is AWAY.
\<close>

lemma away_before_timeout_after_rounding:
  "fl32 (face_absence_timeout_s (thresholds long_timeout_analyzer))
     = face_absence_timeout_s (thresholds long_timeout_analyzer)
   \<and> real_of_int (30603791000000 - 0) / (1000 * real_of_int 1000000)
       < face_absence_timeout_s (thresholds long_timeout_analyzer)
   \<and> fst (analyze fl32 1000000
           (analyze_all fl32 1000000 long_timeout_analyzer [(face_snapshot, 0)])
           FocusMetrics_default 30603791000000) = (AWAY, 0)"
proof -
  have "fl32 (of_int 15669141 * 2 powi (- 9)) = of_int 15669141 * 2 powi (- 9)"
    by (rule fl32_representable) simp_all
  then have t: "fl32 (15669141 / 512) = 15669141 / 512" by simp
  have c: "fl32 30603791 = 30603792"
    by (subst fl32_eq [where e = 1]) (simp_all add: rne_def Let_def)
  have q: "fl32 (3825474 / 125) = 7834571 / 256"
    by (subst fl32_eq [where e = "- 9"]) (simp_all add: rne_def Let_def)
  have ms: "(30603791000000 :: int) sdiv 1000000 = 30603791"
    by (simp add: signed_divide_int_def)
  define a where "a = analyze_all fl32 1000000 long_timeout_analyzer [(face_snapshot, 0)]"
  have tr: "ever_seen_face a" "last_face_seen a = 0"
    "face_absence_timeout_s (thresholds a) = 15669141 / 512"
    by (simp_all add: a_def analyze_face_tracker face_snapshot_def long_timeout_analyzer_def
        FocusAnalyzer_new_def)
  have d: "absence_duration fl32 1000000 a 30603791000000 = 7834571 / 256"
    by (simp add: absence_duration_def tr(2) ms c q)
  have nf: "\<not> face_detected FocusMetrics_default"
    by (simp add: FocusMetrics_default_def)
  have r: "fst (analyze fl32 1000000 a FocusMetrics_default 30603791000000) = (AWAY, 0)"
    using away_iff [OF tr(1) nf, of fl32 1000000 30603791000000] by (simp add: d tr(3))
  have T: "face_absence_timeout_s (thresholds long_timeout_analyzer) = 15669141 / 512"
    by (simp add: long_timeout_analyzer_def FocusAnalyzer_new_def)
  have e: "real_of_int (30603791000000 - 0) / (1000 * real_of_int 1000000) < 15669141 / 512"
    by simp
  show ?thesis
    unfolding T using t e r [unfolded a_def] by (intro conjI)
qed








section \<open>Properties of the metrics collector\<close>

lemma evict_sorted: "sorted ts \<Longrightarrow> evict cutoff ts = filter (\<lambda>t. cutoff \<le> t) ts"
proof (induction ts)
  case Nil
  then show ?case by simp
next
  case (Cons t ts)
  show ?case
  proof (cases "t < cutoff")
    case True
    with Cons show ?thesis by simp
  next
    case False
    with Cons.prems have "\<forall>u \<in> set ts. cutoff \<le> u" by auto
    then have "filter (\<lambda>t. cutoff \<le> t) ts = ts" by simp
    with False show ?thesis by simp
  qed
qed

lemma blink_onsets_times: "set (blink_onsets p calls) \<subseteq> snd ` set calls"
  by (induction p calls rule: blink_onsets.induct) auto

lemma estimate_step:
  assumes "sorted (D @ [t])"
  shows "blink_timestamps (snd (estimate_blink_rate tpm \<lparr>blink_timestamps = D, prev_blink_state = p\<rparr> b t))
           = filter (\<lambda>u. t - 60000 * tpm \<le> u) (D @ blink_onsets p [(b, t)])"
    and "prev_blink_state (snd (estimate_blink_rate tpm \<lparr>blink_timestamps = D, prev_blink_state = p\<rparr> b t)) = b"
    and "fst (estimate_blink_rate tpm \<lparr>blink_timestamps = D, prev_blink_state = p\<rparr> b t)
           = real (length (blink_timestamps (snd (estimate_blink_rate tpm \<lparr>blink_timestamps = D, prev_blink_state = p\<rparr> b t))))"
proof -
  have "sorted D" using assms by (simp add: sorted_append)
  then show "blink_timestamps (snd (estimate_blink_rate tpm \<lparr>blink_timestamps = D, prev_blink_state = p\<rparr> b t))
           = filter (\<lambda>u. t - 60000 * tpm \<le> u) (D @ blink_onsets p [(b, t)])"
    using assms by (simp add: estimate_blink_rate_def Let_def evict_sorted)
  show "prev_blink_state (snd (estimate_blink_rate tpm \<lparr>blink_timestamps = D, prev_blink_state = p\<rparr> b t)) = b"
    by (simp add: estimate_blink_rate_def Let_def)
  show "fst (estimate_blink_rate tpm \<lparr>blink_timestamps = D, prev_blink_state = p\<rparr> b t)
           = real (length (blink_timestamps (snd (estimate_blink_rate tpm \<lparr>blink_timestamps = D, prev_blink_state = p\<rparr> b t))))"
    by (simp add: estimate_blink_rate_def Let_def)
qed

lemma estimate_all_deque:
  assumes "sorted (D @ map snd calls)" and "calls \<noteq> []"
  shows "estimate_all tpm \<lparr>blink_timestamps = D, prev_blink_state = p\<rparr> calls
           = \<lparr>blink_timestamps = filter (\<lambda>u. snd (last calls) - 60000 * tpm \<le> u) (D @ blink_onsets p calls),
              prev_blink_state = fst (last calls)\<rparr>"
  using assms
proof (induction calls arbitrary: D p)
  case Nil
  then show ?case by simp
next
  case (Cons c calls)
  obtain b t where c: "c = (b, t)" by (cases c)
  let ?e = "snd (estimate_blink_rate tpm \<lparr>blink_timestamps = D, prev_blink_state = p\<rparr> b t)"
  let ?D1 = "filter (\<lambda>u. t - 60000 * tpm \<le> u) (D @ blink_onsets p [(b, t)])"
  have sDt: "sorted (D @ [t])"
    using Cons.prems(1) c by (auto simp add: sorted_append)
  have e: "?e = \<lparr>blink_timestamps = ?D1, prev_blink_state = b\<rparr>"
    using estimate_step(1,2) [OF sDt, of tpm p b] by simp
  show ?case
  proof (cases "calls = []")
    case True
    then show ?thesis using e c by simp
  next
    case False
    have le_last: "t \<le> snd (last calls)"
      using Cons.prems(1) c False by (auto simp add: sorted_append)
    have "set ?D1 \<subseteq> set D \<union> {t}" by auto
    moreover have "\<forall>u \<in> set D \<union> {t}. \<forall>v \<in> set (map snd calls). u \<le> v"
      using Cons.prems(1) c by (auto simp add: sorted_append)
    moreover have "sorted ?D1"
      using sDt by (auto simp add: sorted_append intro: sorted_wrt_filter)
    moreover have "sorted (map snd calls)"
      using Cons.prems(1) c by (simp add: sorted_append)
    ultimately have s1: "sorted (?D1 @ map snd calls)"
      unfolding sorted_append by blast
    have ih: "estimate_all tpm \<lparr>blink_timestamps = ?D1, prev_blink_state = b\<rparr> calls
           = \<lparr>blink_timestamps = filter (\<lambda>u. snd (last calls) - 60000 * tpm \<le> u) (?D1 @ blink_onsets b calls),
              prev_blink_state = fst (last calls)\<rparr>"
      by (rule Cons.IH [OF s1 False])
    have ff: "filter (\<lambda>u. snd (last calls) - 60000 * tpm \<le> u) ?D1
            = filter (\<lambda>u. snd (last calls) - 60000 * tpm \<le> u) (D @ blink_onsets p [(b, t)])"
      using le_last by (auto intro: filter_cong)
    have on: "blink_onsets p ((b, t) # calls) = blink_onsets p [(b, t)] @ blink_onsets b calls"
      by simp
    have fl: "filter (\<lambda>u. snd (last calls) - 60000 * tpm \<le> u) (?D1 @ blink_onsets b calls)
                 = filter (\<lambda>u. snd (last calls) - 60000 * tpm \<le> u) (D @ blink_onsets p ((b, t) # calls))"
    proof -
      let ?L = "\<lambda>u. snd (last calls) - 60000 * tpm \<le> u"
      have "filter ?L (?D1 @ blink_onsets b calls) = filter ?L ?D1 @ filter ?L (blink_onsets b calls)"
        by (rule filter_append)
      also have "\<dots> = filter ?L (D @ blink_onsets p [(b, t)]) @ filter ?L (blink_onsets b calls)"
        by (simp only: ff)
      also have "\<dots> = filter ?L ((D @ blink_onsets p [(b, t)]) @ blink_onsets b calls)"
        by (rule filter_append [symmetric])
      also have "\<dots> = filter ?L (D @ blink_onsets p ((b, t) # calls))"
        by (simp only: on append_assoc)
      finally show ?thesis .
    qed
    have "estimate_all tpm \<lparr>blink_timestamps = D, prev_blink_state = p\<rparr> (c # calls)
            = estimate_all tpm \<lparr>blink_timestamps = ?D1, prev_blink_state = b\<rparr> calls"
      unfolding c estimate_all.simps e ..
    also have "\<dots> = \<lparr>blink_timestamps =
                 filter (\<lambda>u. snd (last calls) - 60000 * tpm \<le> u) (?D1 @ blink_onsets b calls),
                 prev_blink_state = fst (last calls)\<rparr>"
      by (rule ih)
    also have "filter (\<lambda>u. snd (last calls) - 60000 * tpm \<le> u) (?D1 @ blink_onsets b calls)
                 = filter (\<lambda>u. snd (last calls) - 60000 * tpm \<le> u) (D @ blink_onsets p ((b, t) # calls))"
      by (rule fl)
    finally have fin: "estimate_all tpm \<lparr>blink_timestamps = D, prev_blink_state = p\<rparr> (c # calls)
            = \<lparr>blink_timestamps =
                 filter (\<lambda>u. snd (last calls) - 60000 * tpm \<le> u) (D @ blink_onsets p ((b, t) # calls)),
                 prev_blink_state = fst (last calls)\<rparr>" .
    have "last (c # calls) = last calls" using False by simp
    then show ?thesis using fin c by simp
  qed
qed

text \<open>
  Claim C6. The estimator starts with an empty history and is called with the flags and
  clock readings \<open>calls\<close> and then with \<open>b\<close> at \<open>now\<close>. The clock is monotonic: the
  readings do not decrease. The rate returned by the last call is the number of onsets
  (a flag set after a flag not set) whose reading lies in the 60 seconds that end at
  \<open>now\<close>; it is not negative, and it is 0 when there is no such onset.
\<close>

theorem blink_rate_counts_onsets:
  assumes "sorted (map snd (calls @ [(b, now)]))"
  shows "fst (estimate_blink_rate tpm (estimate_all tpm BlinkEstimator_init calls) b now)
           = real (onsets_in_window tpm (calls @ [(b, now)]) now)
       \<and> 0 \<le> fst (estimate_blink_rate tpm (estimate_all tpm BlinkEstimator_init calls) b now)
       \<and> (onsets_in_window tpm (calls @ [(b, now)]) now = 0 \<longrightarrow>
            fst (estimate_blink_rate tpm (estimate_all tpm BlinkEstimator_init calls) b now) = 0)"
proof -
  let ?cs = "calls @ [(b, now)]"
  let ?e = "estimate_all tpm BlinkEstimator_init calls"
  have app: "estimate_all tpm e (cs @ [(b, now)]) = snd (estimate_blink_rate tpm (estimate_all tpm e cs) b now)"
    for e cs
    by (induction tpm e cs rule: estimate_all.induct) simp_all
  have rate: "fst (estimate_blink_rate tpm ?e b now)
                = real (length (blink_timestamps (snd (estimate_blink_rate tpm ?e b now))))"
    by (simp add: estimate_blink_rate_def Let_def)
  have "sorted ([] @ map snd ?cs)" using assms by simp
  then have "estimate_all tpm \<lparr>blink_timestamps = [], prev_blink_state = False\<rparr> ?cs
           = \<lparr>blink_timestamps = filter (\<lambda>u. snd (last ?cs) - 60000 * tpm \<le> u) ([] @ blink_onsets False ?cs),
              prev_blink_state = fst (last ?cs)\<rparr>"
    by (rule estimate_all_deque) simp
  then have deque: "blink_timestamps (snd (estimate_blink_rate tpm ?e b now))
                = filter (\<lambda>u. now - 60000 * tpm \<le> u) (blink_onsets False ?cs)"
    by (simp add: app BlinkEstimator_init_def)
  have "\<forall>u \<in> set (blink_onsets False ?cs). u \<le> now"
  proof
    fix u assume "u \<in> set (blink_onsets False ?cs)"
    then have "u \<in> snd ` set ?cs" using blink_onsets_times by blast
    then show "u \<le> now" using assms by (auto simp add: sorted_append)
  qed
  then have "filter (\<lambda>u. now - 60000 * tpm \<le> u) (blink_onsets False ?cs)
           = filter (\<lambda>u. now - 60000 * tpm \<le> u \<and> u \<le> now) (blink_onsets False ?cs)"
    by (auto intro: filter_cong)
  then have "fst (estimate_blink_rate tpm ?e b now) = real (onsets_in_window tpm ?cs now)"
    by (simp add: rate deque onsets_in_window_def)
  then show ?thesis by simp
qed

theorem blink_rate_counts_onsets_witness:
  "sorted (map snd [(True, 0), (True, 1000000000), (False, 2000000000), (True, 3000000000),
                    (False, 61000000000 :: int)])
   \<and> fst (estimate_blink_rate 1000000
        (estimate_all 1000000 BlinkEstimator_init
           [(True, 0), (True, 1000000000), (False, 2000000000), (True, 3000000000)])
        False 61000000000) = 1
   \<and> onsets_in_window 1000000
        [(True, 0), (True, 1000000000), (False, 2000000000), (True, 3000000000), (False, 61000000000)]
        61000000000 = 1"
  using blink_rate_counts_onsets
    [of "[(True, 0), (True, 1000000000), (False, 2000000000), (True, 3000000000)]" False 61000000000 1000000]
  by (simp add: onsets_in_window_def)


lemma mesh_points:
  "length (mesh nx ny lx rx ty by) = 468"
  "mesh nx ny lx rx ty by ! 4 = \<lparr>point_x = nx, point_y = ny\<rparr>"
  "mesh nx ny lx rx ty by ! 234 = \<lparr>point_x = lx, point_y = 0\<rparr>"
  "mesh nx ny lx rx ty by ! 454 = \<lparr>point_x = rx, point_y = 0\<rparr>"
  "mesh nx ny lx rx ty by ! 10 = \<lparr>point_x = 0, point_y = ty\<rparr>"
  "mesh nx ny lx rx ty by ! 152 = \<lparr>point_x = 0, point_y = by\<rparr>"
  by (simp_all add: mesh_def)

lemmas edge_defs = process_edge_metrics_def update_blink_def update_talking_def update_gaze_def
  face_width_def face_height_def face_center_x_def face_center_y_def

text \<open>
  With a face in the frame, the function writes the gaze fields only when it computes a
  gaze: whenever there is no landmark set, or the latest set has fewer than 468 points, or
  the computed face width or height is not above 1, the three gaze fields keep the values
  they had before the call.
\<close>

lemma gaze_fields_kept:
  assumes "face metrics = Some f"
    and "landmarks f = []
         \<or> length (last (landmarks f)) < 468
         \<or> face_width rnd (last (landmarks f)) \<le> 1
         \<or> face_height rnd (last (landmarks f)) \<le> 1"
  shows "has_gaze (current_metrics (process_edge_metrics rnd tpm c metrics now)) = has_gaze (current_metrics c)
       \<and> gaze_x (current_metrics (process_edge_metrics rnd tpm c metrics now)) = gaze_x (current_metrics c)
       \<and> gaze_y (current_metrics (process_edge_metrics rnd tpm c metrics now)) = gaze_y (current_metrics c)"
  using assms
  by (auto simp add: process_edge_metrics_def update_blink_def update_talking_def update_gaze_def Let_def)

lemma good_frame_snapshot:
  "current_metrics (process_edge_metrics fl32 tpm MetricsCollector_new good_frame now)
     = FocusMetrics_default\<lparr>face_detected := True, gaze_x := 1, gaze_y := 0, has_gaze := True\<rparr>"
  by (simp add: good_frame_def frame_with_def edge_defs mesh_points Let_def MetricsCollector_new_def)

lemma sparse_frame_snapshot:
  "current_metrics (process_edge_metrics rnd tpm c sparse_frame now)
     = (current_metrics c)\<lparr>face_detected := True\<rparr>"
  by (simp add: sparse_frame_def frame_with_def process_edge_metrics_def update_blink_def
      update_talking_def update_gaze_def Let_def)

text \<open>
  Claim C1: the code at the failing input. The first frame has a face and a full mesh and
  gives the gaze (1, 0). The second frame has a face and a latest landmark set without
  points, so its gaze cannot be computed. After it the snapshot still reports the gaze of
  the first frame as available, and the classifier answers DISTRACTED from it.
\<close>

theorem stale_gaze_after_sparse_frame:
  "face sparse_frame \<noteq> None
   \<and> length (last (landmarks (the (face sparse_frame)))) < 468
   \<and> current_metrics
        (process_edge_metrics fl32 1000000
           (process_edge_metrics fl32 1000000 MetricsCollector_new good_frame 0) sparse_frame 33000000)
       = FocusMetrics_default\<lparr>face_detected := True, gaze_x := 1, gaze_y := 0, has_gaze := True\<rparr>
   \<and> fst (fst (analyze fl32 1000000 (FocusAnalyzer_new FocusThresholds_default 0)
        (current_metrics
           (process_edge_metrics fl32 1000000
              (process_edge_metrics fl32 1000000 MetricsCollector_new good_frame 0) sparse_frame 33000000))
        33000000)) = DISTRACTED"
proof -
  let ?c1 = "process_edge_metrics fl32 1000000 MetricsCollector_new good_frame 0"
  let ?c2 = "process_edge_metrics fl32 1000000 ?c1 sparse_frame 33000000"
  have s1: "current_metrics ?c1
      = FocusMetrics_default\<lparr>face_detected := True, gaze_x := 1, gaze_y := 0, has_gaze := True\<rparr>"
    by (rule good_frame_snapshot)
  have s2: "current_metrics ?c2
      = FocusMetrics_default\<lparr>face_detected := True, gaze_x := 1, gaze_y := 0, has_gaze := True\<rparr>"
    by (simp add: sparse_frame_snapshot s1)
  have an: "fst (fst (analyze fl32 1000000 (FocusAnalyzer_new FocusThresholds_default 0)
        (FocusMetrics_default\<lparr>face_detected := True, gaze_x := 1, gaze_y := 0, has_gaze := True\<rparr>)
        33000000)) = DISTRACTED"
    by (simp add: analyze_defs gaze_mag_def snapshot_defs fl32_3_10 Let_def)
  have f1: "face sparse_frame \<noteq> None"
    and f2: "length (last (landmarks (the (face sparse_frame)))) < 468"
    by (simp_all add: sparse_frame_def frame_with_def)
  have an2: "fst (fst (analyze fl32 1000000 (FocusAnalyzer_new FocusThresholds_default 0)
        (current_metrics ?c2) 33000000)) = DISTRACTED"
    by (simp only: s2 an)
  show ?thesis
    using f1 f2 s2 an2 by (intro conjI)
qed

end
